theory Spec2Isabelle
  imports Main
begin

section \<open>Flow initiator: AuthorizationCodeWithPkceOidcHandlerBase\<close>

subsection \<open>Login options\<close>

text \<open>
  Modelled from the spec: the declarations of \<^verbatim>\<open>IOidcOptions\<close> and of the issuer
  configuration are imported by the handler but are not part of the sources. The records
  hold the fields the handler reads. A field that may be \<^verbatim>\<open>undefined\<close> is an
  \<open>option\<close>. The issuer is the string identifier of the spec's data model, and the
  custom redirect handler is a value of an arbitrary type \<open>'h\<close> that the handler never
  inspects.
\<close>

record issuerConfig =
  grantTypesSupported :: "string list option"

record 'h oidcOptions =
  issuer :: string
  issuerConfiguration :: issuerConfig
  redirectUrl :: "string option"
  sessionId :: string
  dpop :: "bool option"
  keepAlive :: "bool option"
  handleRedirect :: "'h option"

subsection \<open>JavaScript primitives used by the handler\<close>

text \<open>\<^verbatim>\<open>Boolean(v)\<close> on a boolean or \<^verbatim>\<open>undefined\<close>: \<^verbatim>\<open>undefined\<close> is falsy.\<close>

definition Boolean :: "bool option \<Rightarrow> bool" where
  "Boolean v = (case v of None \<Rightarrow> False | Some b \<Rightarrow> b)"

text \<open>\<^verbatim>\<open>Boolean.prototype.toString\<close>.\<close>

definition boolToString :: "bool \<Rightarrow> string" where
  "boolToString b = (if b then ''true'' else ''false'')"

text \<open>\<^verbatim>\<open>String.prototype.toString\<close> returns the string itself.\<close>

definition toString :: "string \<Rightarrow> string" where
  "toString s = s"

text \<open>
  \<^verbatim>\<open>Array.prototype.indexOf\<close>: the index of the first element strictly equal to the
  searched one, \<open>-1\<close> when there is none.
\<close>

fun indexOfFrom :: "int \<Rightarrow> 'a list \<Rightarrow> 'a \<Rightarrow> int" where
  "indexOfFrom i [] x = -1"
| "indexOfFrom i (y # ys) x = (if y = x then i else indexOfFrom (i + 1) ys x)"

definition indexOf :: "'a list \<Rightarrow> 'a \<Rightarrow> int" where
  "indexOf xs x = indexOfFrom 0 xs x"

text \<open>
  \<^verbatim>\<open>booleanWithFallback(value, fallback)\<close>: the value when its type is boolean, the
  fallback otherwise.
\<close>

fun booleanWithFallback :: "bool option \<Rightarrow> bool \<Rightarrow> bool" where
  "booleanWithFallback (Some b) fallback = Boolean (Some b)"
| "booleanWithFallback None fallback = Boolean (Some fallback)"

subsection \<open>The applicability predicate\<close>

text \<open>
  A rejection of the handler: either the \<^verbatim>\<open>Error\<close> it constructs itself, with its
  message, or a failure \<open>'e\<close> of a collaborator that it lets through.
\<close>

datatype 'e failure = Error string | Rejected 'e

definition parametersGuard :: "'h oidcOptions \<Rightarrow> bool" where
  "parametersGuard oidcLoginOptions =
     (case grantTypesSupported (issuerConfiguration oidcLoginOptions) of
        None \<Rightarrow> False
      | Some gs \<Rightarrow>
          indexOf gs ''authorization_code'' > -1 \<and> redirectUrl oidcLoginOptions \<noteq> None)"

text \<open>\<^verbatim>\<open>canHandle\<close> is asynchronous: its promise resolves with the guard's value.\<close>

definition canHandle :: "'h oidcOptions \<Rightarrow> 'e failure + bool" where
  "canHandle oidcLoginOptions = Inr (parametersGuard oidcLoginOptions)"

subsection \<open>Collaborators and the world they act on\<close>

text \<open>
  The handler receives its storage utility and its redirector through the constructor, so
  both are parameters of the model. A storage utility takes a key, a record of string
  fields and the storage state; it answers with the outcome of the write (\<open>None\<close> when
  the promise resolves, \<open>Some e\<close> when it rejects with \<open>e\<close>) and the storage state
  afterwards. A redirector takes the target URL and the \<^verbatim>\<open>handleRedirect\<close> option and
  may throw. The world also records every call made to a collaborator, in order.
\<close>

type_synonym ('st, 'e) storageUtility =
  "string \<Rightarrow> (string \<rightharpoonup> string) \<Rightarrow> 'st \<Rightarrow> 'e option \<times> 'st"

type_synonym ('h, 'e) redirector = "string \<Rightarrow> 'h option \<Rightarrow> 'e option"

datatype 'h call =
    SetForUser string "string \<rightharpoonup> string"
  | Redirect string "'h option"

record ('st, 'h) world =
  store :: 'st
  calls :: "'h call list"

definition setForUser ::
  "('st, 'e) storageUtility \<Rightarrow> string \<Rightarrow> (string \<rightharpoonup> string) \<Rightarrow> ('st, 'h) world
     \<Rightarrow> 'e option \<times> ('st, 'h) world" where
  "setForUser storageUtility key vals w =
     (case storageUtility key vals (store w) of
        (outcome, s') \<Rightarrow>
          (outcome, w\<lparr>store := s', calls := calls w @ [SetForUser key vals]\<rparr>))"

definition redirect ::
  "('h, 'e) redirector \<Rightarrow> string \<Rightarrow> 'h option \<Rightarrow> ('st, 'h) world
     \<Rightarrow> 'e option \<times> ('st, 'h) world" where
  "redirect redirector targetUrl h w =
     (redirector targetUrl h, w\<lparr>calls := calls w @ [Redirect targetUrl h]\<rparr>)"

text \<open>
  \<^verbatim>\<open>await Promise.all([p1, p2])\<close> on promises that are already created: it throws when
  one of them rejects. Both writes have been issued by then, in the order of the array.
  When both reject, JavaScript reports the rejection that settles first; the model
  reports the one of the first write.
\<close>

definition promiseAll :: "'e option \<Rightarrow> 'e option \<Rightarrow> 'e option" where
  "promiseAll r1 r2 = (case r1 of Some e \<Rightarrow> Some e | None \<Rightarrow> r2)"

text \<open>The redirect calls of a trace, in order.\<close>

fun redirects :: "'h call list \<Rightarrow> (string \<times> 'h option) list" where
  "redirects [] = []"
| "redirects (Redirect u h # cs) = (u, h) # redirects cs"
| "redirects (SetForUser k r # cs) = redirects cs"

subsection \<open>Flow setup\<close>

text \<open>The record written under the OAuth state: \<^verbatim>\<open>{ sessionId }\<close>.\<close>

definition stateRecord :: "'h oidcOptions \<Rightarrow> (string \<rightharpoonup> string)" where
  "stateRecord oidcLoginOptions = [''sessionId'' \<mapsto> sessionId oidcLoginOptions]"

text \<open>
  The record written under the session identifier. The redirect URL is the option's
  field as it is: past the guard it is a string, and a property that holds
  \<^verbatim>\<open>undefined\<close> is a field the record does not have.
\<close>

definition sessionRecord :: "'h oidcOptions \<Rightarrow> string \<Rightarrow> (string \<rightharpoonup> string)" where
  "sessionRecord oidcLoginOptions codeVerifier =
     (([''codeVerifier'' \<mapsto> codeVerifier,
        ''issuer'' \<mapsto> toString (issuer oidcLoginOptions)])
        (''redirectUrl'' := redirectUrl oidcLoginOptions))
        (''dpop'' \<mapsto> boolToString (Boolean (dpop oidcLoginOptions)),
         ''keepAlive'' \<mapsto> boolToString (booleanWithFallback (keepAlive oidcLoginOptions) True))"

text \<open>
  \<^verbatim>\<open>setupRedirectHandler\<close>. The method is asynchronous, so its own error and a failure
  of a collaborator both reach the caller as a rejection; the result is \<open>Inl\<close> of the
  failure, or \<open>Inr ()\<close> when the promise resolves, together with the world afterwards.
  The guard is checked before the first \<^verbatim>\<open>await\<close>. Both promises are created before
  either is awaited; the storage utility is applied for the first write and then for the
  second, in the order of the array, and the storage state is threaded through the two
  applications. A storage whose write takes effect in one step sees the first write when
  it performs the second. A storage whose write first reads and later writes keeps in
  its state what the reads of the two writes see (the storage that reads before it
  writes, below).
\<close>

definition setupRedirectHandler ::
  "('st, 'e) storageUtility \<Rightarrow> ('h, 'e) redirector \<Rightarrow> 'h oidcOptions \<Rightarrow> string \<Rightarrow> string
     \<Rightarrow> string \<Rightarrow> ('st, 'h) world \<Rightarrow> ('e failure + unit) \<times> ('st, 'h) world" where
  "setupRedirectHandler storageUtility redirector oidcLoginOptions state codeVerifier targetUrl w =
     (if \<not> parametersGuard oidcLoginOptions
      then (Inl (Error ''The authorization code grant requires a redirectUrl.''), w)
      else
        (case setForUser storageUtility state (stateRecord oidcLoginOptions) w of
           (r1, w1) \<Rightarrow>
             (case setForUser storageUtility (sessionId oidcLoginOptions)
                     (sessionRecord oidcLoginOptions codeVerifier) w1 of
                (r2, w2) \<Rightarrow>
                  (case promiseAll r1 r2 of
                     Some e \<Rightarrow> (Inl (Rejected e), w2)
                   | None \<Rightarrow>
                       (case redirect redirector targetUrl (handleRedirect oidcLoginOptions) w2 of
                          (Some e, w3) \<Rightarrow> (Inl (Rejected e), w3)
                        | (None, w3) \<Rightarrow> (Inr (), w3))))))"

subsection \<open>A key-value storage\<close>

text \<open>
  Modelled from the spec: the implementation of the storage utility is not part of the
  sources. The spec gives \<^verbatim>\<open>setForUser(key, record) -> Promise<void>\<close> on a durable
  store keyed by an opaque string, where a later write to a key wins. The store maps a
  key to a record of string fields. A write takes effect in one step. Whether a write to
  a key that already holds a record replaces the record or merges the new fields into
  it is not fixed by the spec, so it is a mode of the model. A write to a key listed in
  \<open>rejected\<close> rejects and leaves the store as it was.
\<close>

type_synonym kvStore = "string \<rightharpoonup> (string \<rightharpoonup> string)"

datatype writeMode = Replace | Merge

datatype storageError = WriteRejected string

definition kvSetForUser :: "writeMode \<Rightarrow> string list \<Rightarrow> (kvStore, storageError) storageUtility" where
  "kvSetForUser mode rejected key vals s =
     (if key \<in> set rejected then (Some (WriteRejected key), s)
      else
        (None,
         s(key \<mapsto>
           (case mode of
              Replace \<Rightarrow> vals
            | Merge \<Rightarrow> (case s key of None \<Rightarrow> vals | Some old \<Rightarrow> old ++ vals)))))"

text \<open>The field \<open>f\<close> of the record stored under key \<open>k\<close>, if there is one.\<close>

definition storedField :: "kvStore \<Rightarrow> string \<Rightarrow> string \<Rightarrow> string option" where
  "storedField s k f = (case s k of None \<Rightarrow> None | Some r \<Rightarrow> r f)"

text \<open>A redirector that never throws.\<close>

definition plainRedirector :: "(string, storageError) redirector" where
  "plainRedirector targetUrl h = None"

text \<open>The world before the flow starts: an empty store and no call made.\<close>

definition emptyWorld :: "(kvStore, string) world" where
  "emptyWorld = \<lparr>store = Map.empty, calls = []\<rparr>"

text \<open>
  The scenario of the spec: the issuer advertises the authorization code grant, a
  redirect URL is present, DPoP is requested, and neither a keep-alive choice nor a
  custom redirect handler is given.
\<close>

definition scenarioOptions :: "string oidcOptions" where
  "scenarioOptions =
     \<lparr>issuer = ''https://idp.example'',
      issuerConfiguration = \<lparr>grantTypesSupported = Some [''authorization_code'']\<rparr>,
      redirectUrl = Some ''https://app.example/cb'',
      sessionId = ''s1'',
      dpop = Some True,
      keepAlive = None,
      handleRedirect = None\<rparr>"

subsection \<open>A storage that reads before it writes\<close>





subsection \<open>What a storage has to keep\<close>

text \<open>
  The least that the correlation records need of a storage utility, whatever its state
  \<open>'st\<close> and the way \<open>look\<close> to read a field of the record under a key: after a write
  that resolves, the record under the key has every field written, with the value
  written, and the records under all other keys are as they were.
\<close>

definition keepsWrites ::
  "('st, 'e) storageUtility \<Rightarrow> ('st \<Rightarrow> string \<Rightarrow> string \<Rightarrow> string option) \<Rightarrow> bool" where
  "keepsWrites storageUtility look =
     (\<forall>key vals s s'. storageUtility key vals s = (None, s') \<longrightarrow>
        (\<forall>f. vals f \<noteq> None \<longrightarrow> look s' key f = vals f)
        \<and> (\<forall>k f. k \<noteq> key \<longrightarrow> look s' k f = look s k f))"

section \<open>Session event model: ISessionEventListener\<close>

text \<open>
  Modelled from the spec: the constant table \<^verbatim>\<open>EVENTS\<close> is imported from another
  module that is not part of the sources. Its ten members are the channels of the spec's
  table; the value of each member is a parameter \<open>EVENTS\<close> of the definitions below.
\<close>

datatype event =
    LOGIN | LOGOUT | SESSION_EXPIRED | SESSION_RESTORED | ERROR | SESSION_EXTENDED
  | TIMEOUT_SET | NEW_REFRESH_TOKEN | NEW_TOKENS | AUTHORIZATION_REQUEST

text \<open>
  An event name at run time: a string or a symbol.
\<close>

datatype eventName = Str string | Sym nat

text \<open>
  The types an \<^verbatim>\<open>eventName\<close> parameter is declared with: the literal type
  \<^verbatim>\<open>typeof EVENTS.X\<close> of a member, the first parameter type of
  \<^verbatim>\<open>EventEmitter["on"]\<close> (a string or a symbol), and \<^verbatim>\<open>never\<close>.
\<close>

datatype nameType = Literal event | StringOrSymbol | NeverName

text \<open>
  The types of the listeners' parameters. A parameter has a name, the members of its
  union type and a flag that says whether it is optional; a rest parameter has a name
  and the members of the type of its elements. A listener type is a function type or
  \<^verbatim>\<open>never\<close>. The type \<^verbatim>\<open>any\<close> and the rest parameter occur in the members
  inherited from \<^verbatim>\<open>EventEmitter\<close> only.
\<close>

datatype valueType =
    TString | TNumber | TNull | TError | TSessionTokenSet | TAuthorizationRequestState | TAny

datatype param = Param string "valueType list" bool | Rest string "valueType list"

datatype returnType = Void | Unknown

datatype listenerType = Function "param list" returnType | NeverListener

text \<open>
  The type of the rest parameter of \<^verbatim>\<open>emit\<close>: the interface declares it
  \<^verbatim>\<open>never\<close>.
\<close>

datatype restType = NeverRest

text \<open>
  The eleven argument types \<^verbatim>\<open>LOGIN_ARGS\<close> to \<^verbatim>\<open>FALLBACK_ARGS\<close>, each with its
  \<^verbatim>\<open>eventName\<close> and its \<^verbatim>\<open>listener\<close> member.
\<close>

datatype args =
    LOGIN_ARGS | LOGOUT_ARGS | SESSION_EXPIRED_ARGS | SESSION_RESTORED_ARGS | ERROR_ARGS
  | SESSION_EXTENDED_ARGS | TIMEOUT_SET_ARGS | NEW_REFRESH_TOKEN_ARGS | NEW_TOKENS_ARGS
  | AUTH_STATE_ARGS | FALLBACK_ARGS

fun eventNameOf :: "args \<Rightarrow> nameType" where
  "eventNameOf LOGIN_ARGS = Literal LOGIN"
| "eventNameOf LOGOUT_ARGS = Literal LOGOUT"
| "eventNameOf SESSION_EXPIRED_ARGS = Literal SESSION_EXPIRED"
| "eventNameOf SESSION_RESTORED_ARGS = Literal SESSION_RESTORED"
| "eventNameOf ERROR_ARGS = Literal ERROR"
| "eventNameOf SESSION_EXTENDED_ARGS = Literal SESSION_EXTENDED"
| "eventNameOf TIMEOUT_SET_ARGS = Literal TIMEOUT_SET"
| "eventNameOf NEW_REFRESH_TOKEN_ARGS = Literal NEW_REFRESH_TOKEN"
| "eventNameOf NEW_TOKENS_ARGS = Literal NEW_TOKENS"
| "eventNameOf AUTH_STATE_ARGS = Literal AUTHORIZATION_REQUEST"
| "eventNameOf FALLBACK_ARGS = StringOrSymbol"

fun listenerOf :: "args \<Rightarrow> listenerType" where
  "listenerOf LOGIN_ARGS = Function [] Void"
| "listenerOf LOGOUT_ARGS = Function [] Void"
| "listenerOf SESSION_EXPIRED_ARGS = Function [] Void"
| "listenerOf SESSION_RESTORED_ARGS = Function [Param ''currentUrl'' [TString] False] Unknown"
| "listenerOf ERROR_ARGS =
     Function [Param ''error'' [TString, TNull] False,
               Param ''errorDescription'' [TString, TError, TNull] True] Unknown"
| "listenerOf SESSION_EXTENDED_ARGS = Function [Param ''expiresIn'' [TNumber] False] Void"
| "listenerOf TIMEOUT_SET_ARGS = Function [Param ''timeoutId'' [TNumber] False] Void"
| "listenerOf NEW_REFRESH_TOKEN_ARGS = Function [Param ''newToken'' [TString] False] Void"
| "listenerOf NEW_TOKENS_ARGS = Function [Param ''tokenSet'' [TSessionTokenSet] False] Void"
| "listenerOf AUTH_STATE_ARGS =
     Function [Param ''authorizationRequestState'' [TAuthorizationRequestState] False] Void"
| "listenerOf FALLBACK_ARGS = NeverListener"

text \<open>
  An overload of a registration method takes its event name type from one argument type
  and its listener type from another: the interface writes
  \<^verbatim>\<open>X_ARGS["eventName"]\<close> and \<^verbatim>\<open>X_ARGS["listener"]\<close> separately in every overload.
  The five lists below are the overloads of \<^verbatim>\<open>on\<close>, \<^verbatim>\<open>addListener\<close>,
  \<^verbatim>\<open>once\<close>, \<^verbatim>\<open>off\<close> and \<^verbatim>\<open>removeListener\<close> in the order of the
  declarations.
\<close>

type_synonym overload = "nameType \<times> listenerType"

definition overload :: "args \<Rightarrow> args \<Rightarrow> overload" where
  "overload a b = (eventNameOf a, listenerOf b)"

definition on_overloads :: "overload list" where
  "on_overloads =
     [overload LOGIN_ARGS LOGIN_ARGS,
      overload LOGOUT_ARGS LOGOUT_ARGS,
      overload SESSION_EXPIRED_ARGS SESSION_EXPIRED_ARGS,
      overload SESSION_RESTORED_ARGS SESSION_RESTORED_ARGS,
      overload ERROR_ARGS ERROR_ARGS,
      overload SESSION_EXTENDED_ARGS SESSION_EXTENDED_ARGS,
      overload TIMEOUT_SET_ARGS TIMEOUT_SET_ARGS,
      overload NEW_REFRESH_TOKEN_ARGS NEW_REFRESH_TOKEN_ARGS,
      overload NEW_TOKENS_ARGS NEW_TOKENS_ARGS,
      overload AUTH_STATE_ARGS AUTH_STATE_ARGS,
      overload FALLBACK_ARGS FALLBACK_ARGS]"

definition addListener_overloads :: "overload list" where
  "addListener_overloads =
     [overload LOGIN_ARGS LOGIN_ARGS,
      overload LOGOUT_ARGS LOGOUT_ARGS,
      overload SESSION_EXPIRED_ARGS SESSION_EXPIRED_ARGS,
      overload SESSION_RESTORED_ARGS SESSION_RESTORED_ARGS,
      overload ERROR_ARGS ERROR_ARGS,
      overload SESSION_EXTENDED_ARGS SESSION_EXTENDED_ARGS,
      overload TIMEOUT_SET_ARGS TIMEOUT_SET_ARGS,
      overload NEW_REFRESH_TOKEN_ARGS NEW_REFRESH_TOKEN_ARGS,
      overload NEW_TOKENS_ARGS NEW_TOKENS_ARGS,
      overload AUTH_STATE_ARGS AUTH_STATE_ARGS,
      overload FALLBACK_ARGS FALLBACK_ARGS]"

definition once_overloads :: "overload list" where
  "once_overloads =
     [overload LOGIN_ARGS LOGIN_ARGS,
      overload LOGOUT_ARGS LOGOUT_ARGS,
      overload SESSION_EXPIRED_ARGS SESSION_EXPIRED_ARGS,
      overload SESSION_RESTORED_ARGS SESSION_RESTORED_ARGS,
      overload ERROR_ARGS ERROR_ARGS,
      overload SESSION_EXTENDED_ARGS SESSION_EXTENDED_ARGS,
      overload TIMEOUT_SET_ARGS TIMEOUT_SET_ARGS,
      overload NEW_REFRESH_TOKEN_ARGS NEW_REFRESH_TOKEN_ARGS,
      overload NEW_TOKENS_ARGS NEW_TOKENS_ARGS,
      overload AUTH_STATE_ARGS AUTH_STATE_ARGS,
      overload FALLBACK_ARGS FALLBACK_ARGS]"

definition off_overloads :: "overload list" where
  "off_overloads =
     [overload LOGIN_ARGS LOGIN_ARGS,
      overload LOGOUT_ARGS LOGOUT_ARGS,
      overload SESSION_EXPIRED_ARGS SESSION_EXPIRED_ARGS,
      overload SESSION_RESTORED_ARGS SESSION_RESTORED_ARGS,
      overload ERROR_ARGS ERROR_ARGS,
      overload SESSION_EXTENDED_ARGS SESSION_EXTENDED_ARGS,
      overload TIMEOUT_SET_ARGS TIMEOUT_SET_ARGS,
      overload NEW_REFRESH_TOKEN_ARGS NEW_REFRESH_TOKEN_ARGS,
      overload NEW_TOKENS_ARGS NEW_TOKENS_ARGS,
      overload AUTH_STATE_ARGS AUTH_STATE_ARGS,
      overload FALLBACK_ARGS FALLBACK_ARGS]"

definition removeListener_overloads :: "overload list" where
  "removeListener_overloads =
     [overload LOGIN_ARGS LOGIN_ARGS,
      overload LOGOUT_ARGS LOGOUT_ARGS,
      overload SESSION_EXPIRED_ARGS SESSION_EXPIRED_ARGS,
      overload SESSION_RESTORED_ARGS SESSION_RESTORED_ARGS,
      overload ERROR_ARGS ERROR_ARGS,
      overload SESSION_EXTENDED_ARGS SESSION_EXTENDED_ARGS,
      overload TIMEOUT_SET_ARGS TIMEOUT_SET_ARGS,
      overload NEW_REFRESH_TOKEN_ARGS NEW_REFRESH_TOKEN_ARGS,
      overload NEW_TOKENS_ARGS NEW_TOKENS_ARGS,
      overload AUTH_STATE_ARGS AUTH_STATE_ARGS,
      overload FALLBACK_ARGS FALLBACK_ARGS]"

text \<open>
  The interface extends \<^verbatim>\<open>EventEmitter\<close> and redeclares \<^verbatim>\<open>on\<close>,
  \<^verbatim>\<open>addListener\<close>, \<^verbatim>\<open>once\<close>, \<^verbatim>\<open>off\<close>, \<^verbatim>\<open>removeListener\<close> and
  \<^verbatim>\<open>emit\<close>. Every other member is the one of \<^verbatim>\<open>EventEmitter\<close>. Two of
  them register listeners: \<^verbatim>\<open>prependListener\<close> and \<^verbatim>\<open>prependOnceListener\<close>. The
  source imports \<^verbatim>\<open>EventEmitter\<close> as a type from the \<^verbatim>\<open>events\<close> module of the
  platform, which is not part of the sources; there both are declared with the
  parameters \<^verbatim>\<open>(eventName: string | symbol, listener: (...args: any[]) => void)\<close>.
\<close>

definition prependListener_overloads :: "overload list" where
  "prependListener_overloads = [(StringOrSymbol, Function [Rest ''args'' [TAny]] Void)]"

definition prependOnceListener_overloads :: "overload list" where
  "prependOnceListener_overloads = [(StringOrSymbol, Function [Rest ''args'' [TAny]] Void)]"

text \<open>
  \<^verbatim>\<open>emit(eventName: never, ...args: never): boolean\<close>.
\<close>

definition emit_parameters :: "nameType \<times> restType" where
  "emit_parameters = (NeverName, NeverRest)"

text \<open>
  The values a type admits. A literal type admits the value of its member and nothing
  else, \<^verbatim>\<open>string | symbol\<close> admits every event name, \<^verbatim>\<open>never\<close> admits no
  value. Whether a listener is assignable to a function type is TypeScript's relation
  between the listener's own type and that function type; it is the parameter
  \<open>assignable\<close>, over listeners of an arbitrary type \<open>'l\<close>.
\<close>

fun nameAdmits :: "(event \<Rightarrow> eventName) \<Rightarrow> nameType \<Rightarrow> eventName \<Rightarrow> bool" where
  "nameAdmits EVENTS (Literal e) n = (n = EVENTS e)"
| "nameAdmits EVENTS StringOrSymbol n = True"
| "nameAdmits EVENTS NeverName n = False"

fun listenerAdmits ::
  "('l \<Rightarrow> param list \<Rightarrow> returnType \<Rightarrow> bool) \<Rightarrow> listenerType \<Rightarrow> 'l \<Rightarrow> bool" where
  "listenerAdmits assignable (Function ps r) l = assignable l ps r"
| "listenerAdmits assignable NeverListener l = False"

fun restAdmits :: "restType \<Rightarrow> 'v list \<Rightarrow> bool" where
  "restAdmits NeverRest vs = False"

text \<open>
  The overloads whose event name type admits a name, and whether a call with a name and
  a listener type-checks against a list of overloads: one overload admits both
  arguments.
\<close>

definition matching :: "(event \<Rightarrow> eventName) \<Rightarrow> eventName \<Rightarrow> overload list \<Rightarrow> overload list" where
  "matching EVENTS n ovs = filter (\<lambda>ov. nameAdmits EVENTS (fst ov) n) ovs"

definition accepts ::
  "(event \<Rightarrow> eventName) \<Rightarrow> ('l \<Rightarrow> param list \<Rightarrow> returnType \<Rightarrow> bool) \<Rightarrow> overload list
     \<Rightarrow> eventName \<Rightarrow> 'l \<Rightarrow> bool" where
  "accepts EVENTS assignable ovs n l =
     list_ex (\<lambda>ov. nameAdmits EVENTS (fst ov) n \<and> listenerAdmits assignable (snd ov) l) ovs"

text \<open>
  Whether a call of \<^verbatim>\<open>emit\<close> with a name and further arguments type-checks.
\<close>

definition emitAccepts :: "(event \<Rightarrow> eventName) \<Rightarrow> eventName \<Rightarrow> 'v list \<Rightarrow> bool" where
  "emitAccepts EVENTS n vs =
     (nameAdmits EVENTS (fst emit_parameters) n \<and> restAdmits (snd emit_parameters) vs)"

text \<open>
  An instance for evaluation: the channel labels of the spec's table as the values of
  the members, and listeners told apart by the number of parameters they declare, where
  a listener may declare fewer parameters than the function type it is assigned to.
\<close>

fun channelLabel :: "event \<Rightarrow> eventName" where
  "channelLabel LOGIN = Str ''LOGIN''"
| "channelLabel LOGOUT = Str ''LOGOUT''"
| "channelLabel SESSION_EXPIRED = Str ''SESSION_EXPIRED''"
| "channelLabel SESSION_RESTORED = Str ''SESSION_RESTORED''"
| "channelLabel ERROR = Str ''ERROR''"
| "channelLabel SESSION_EXTENDED = Str ''SESSION_EXTENDED''"
| "channelLabel TIMEOUT_SET = Str ''TIMEOUT_SET''"
| "channelLabel NEW_REFRESH_TOKEN = Str ''NEW_REFRESH_TOKEN''"
| "channelLabel NEW_TOKENS = Str ''NEW_TOKENS''"
| "channelLabel AUTHORIZATION_REQUEST = Str ''AUTHORIZATION_REQUEST''"

definition arityFits :: "nat \<Rightarrow> param list \<Rightarrow> returnType \<Rightarrow> bool" where
  "arityFits k ps r = (k \<le> length ps)"

section \<open>Properties of the flow initiator\<close>

subsection \<open>The guard\<close>

lemma indexOfFrom_found: "0 \<le> i \<Longrightarrow> (indexOfFrom i xs x > -1) = (x \<in> set xs)"
  by (induction xs arbitrary: i) auto

lemma indexOf_found: "(indexOf xs x > -1) = (x \<in> set xs)"
  by (simp add: indexOf_def indexOfFrom_found)

lemma parametersGuard_iff:
  "parametersGuard opts =
     ((\<exists>gs. grantTypesSupported (issuerConfiguration opts) = Some gs \<and> ''authorization_code'' \<in> set gs)
      \<and> redirectUrl opts \<noteq> None)"
  by (auto simp: parametersGuard_def indexOf_found split: option.splits)

lemma scenario_guard: "parametersGuard scenarioOptions"
  by (simp add: parametersGuard_def scenarioOptions_def indexOf_def)

subsection \<open>The two outcomes of the guard\<close>

lemma setup_inapplicable:
  "\<not> parametersGuard opts \<Longrightarrow>
     setupRedirectHandler su rd opts st cv url w =
       (Inl (Error ''The authorization code grant requires a redirectUrl.''), w)"
  by (simp add: setupRedirectHandler_def)

lemma setup_applicable:
  assumes "parametersGuard opts"
  shows "setupRedirectHandler su rd opts st cv url w =
     (let o1 = su st (stateRecord opts) (store w);
          o2 = su (sessionId opts) (sessionRecord opts cv) (snd o1);
          issued = calls w @ [SetForUser st (stateRecord opts),
                              SetForUser (sessionId opts) (sessionRecord opts cv)]
      in case promiseAll (fst o1) (fst o2) of
           Some e \<Rightarrow> (Inl (Rejected e), w\<lparr>store := snd o2, calls := issued\<rparr>)
         | None \<Rightarrow>
             (case rd url (handleRedirect opts) of
                Some e \<Rightarrow> Inl (Rejected e)
              | None \<Rightarrow> Inr (),
              w\<lparr>store := snd o2, calls := issued @ [Redirect url (handleRedirect opts)]\<rparr>))"
  using assms
  by (simp add: setupRedirectHandler_def setForUser_def redirect_def Let_def
      split: prod.splits option.splits)

lemma setup_success:
  assumes "fst (setupRedirectHandler su rd opts st cv url w) = Inr ()"
  shows "parametersGuard opts"
    and "fst (su st (stateRecord opts) (store w)) = None"
    and "fst (su (sessionId opts) (sessionRecord opts cv) (snd (su st (stateRecord opts) (store w)))) = None"
    and "rd url (handleRedirect opts) = None"
    and "snd (setupRedirectHandler su rd opts st cv url w) =
           w\<lparr>store := snd (su (sessionId opts) (sessionRecord opts cv) (snd (su st (stateRecord opts) (store w)))),
             calls := calls w @ [SetForUser st (stateRecord opts),
                              SetForUser (sessionId opts) (sessionRecord opts cv),
                              Redirect url (handleRedirect opts)]\<rparr>"
proof -
  show g: "parametersGuard opts"
    using assms by (cases "parametersGuard opts") (simp_all add: setup_inapplicable)
  note eq = setup_applicable [OF g, of su rd st cv url w]
  show "fst (su st (stateRecord opts) (store w)) = None"
    using assms unfolding eq by (simp add: Let_def promiseAll_def split: option.splits)
  show "fst (su (sessionId opts) (sessionRecord opts cv) (snd (su st (stateRecord opts) (store w)))) = None"
    using assms unfolding eq by (simp add: Let_def promiseAll_def split: option.splits)
  show "rd url (handleRedirect opts) = None"
    using assms unfolding eq by (simp add: Let_def promiseAll_def split: option.splits)
  show "snd (setupRedirectHandler su rd opts st cv url w) =
           w\<lparr>store := snd (su (sessionId opts) (sessionRecord opts cv) (snd (su st (stateRecord opts) (store w)))),
             calls := calls w @ [SetForUser st (stateRecord opts),
                              SetForUser (sessionId opts) (sessionRecord opts cv),
                              Redirect url (handleRedirect opts)]\<rparr>"
    using assms unfolding eq by (simp add: Let_def promiseAll_def split: option.splits)
qed

text \<open>
  The flow resolves whenever the options are applicable and no collaborator fails.
\<close>

lemma setup_resolves:
  assumes "parametersGuard opts"
    and "fst (su st (stateRecord opts) (store w)) = None"
    and "fst (su (sessionId opts) (sessionRecord opts cv) (snd (su st (stateRecord opts) (store w)))) = None"
    and "rd url (handleRedirect opts) = None"
  shows "fst (setupRedirectHandler su rd opts st cv url w) = Inr ()"
  unfolding setup_applicable [OF assms(1)]
  using assms(2-4) by (simp add: Let_def promiseAll_def)

lemma redirects_append: "redirects (xs @ ys) = redirects xs @ redirects ys"
  by (induction xs rule: redirects.induct) simp_all

subsection \<open>What the storage holds afterwards\<close>

lemma sessionRecord_fields:
  "sessionRecord opts cv ''codeVerifier'' = Some cv"
  "sessionRecord opts cv ''issuer'' = Some (toString (issuer opts))"
  "sessionRecord opts cv ''redirectUrl'' = redirectUrl opts"
  "sessionRecord opts cv ''dpop'' = Some (boolToString (Boolean (dpop opts)))"
  "sessionRecord opts cv ''keepAlive'' = Some (boolToString (booleanWithFallback (keepAlive opts) True))"
  "sessionRecord opts cv ''sessionId'' = None"
  "sessionRecord opts cv ''dpopBound'' = None"
  by (simp_all add: sessionRecord_def)

lemma keepsWrites_written:
  assumes "keepsWrites su look" and "su key vals s = (None, s')" and "vals f \<noteq> None"
  shows "look s' key f = vals f"
  using assms unfolding keepsWrites_def by blast


text \<open>
  The key-value storage, in both modes, and the storage that reads before it writes keep
  what is written.
\<close>

lemma kv_keepsWrites: "keepsWrites (kvSetForUser mode rejected) storedField"
  unfolding keepsWrites_def
  by (cases mode) (auto simp: kvSetForUser_def storedField_def map_add_def
      split: if_splits option.splits)


text \<open>
  A successful call has applied the storage utility twice, both times with success, and
  leaves the storage in the state after the second write.
\<close>

lemma setup_success_writes:
  assumes "fst (setupRedirectHandler su rd opts st cv url w) = Inr ()"
  obtains s1 s2 where
    "su st (stateRecord opts) (store w) = (None, s1)"
    "su (sessionId opts) (sessionRecord opts cv) s1 = (None, s2)"
    "store (snd (setupRedirectHandler su rd opts st cv url w)) = s2"
proof -
  let ?s1 = "snd (su st (stateRecord opts) (store w))"
  let ?s2 = "snd (su (sessionId opts) (sessionRecord opts cv) ?s1)"
  have "su st (stateRecord opts) (store w) = (None, ?s1)"
    using setup_success(2) [OF assms] by (simp add: prod_eq_iff)
  moreover have "su (sessionId opts) (sessionRecord opts cv) ?s1 = (None, ?s2)"
    using setup_success(3) [OF assms] by (simp add: prod_eq_iff)
  moreover have "store (snd (setupRedirectHandler su rd opts st cv url w)) = ?s2"
    by (simp add: setup_success(5) [OF assms])
  ultimately show thesis by (rule that)
qed


lemma scenario_run:
  "st \<notin> set rejected \<Longrightarrow> ''s1'' \<notin> set rejected \<Longrightarrow>
   fst (setupRedirectHandler (kvSetForUser mode rejected) plainRedirector scenarioOptions st cv url w) = Inr ()"
  unfolding setup_applicable [OF scenario_guard]
  by (simp add: kvSetForUser_def plainRedirector_def promiseAll_def Let_def scenarioOptions_def)




text \<open>
  The same input on the key-value storage that replaces records loses the field as
  well.
\<close>

lemma setup_same_key_replace:
  "storedField (store (snd (setupRedirectHandler (kvSetForUser Replace []) plainRedirector
          scenarioOptions ''s1'' ''verifier123'' ''https://idp.example/authorize'' emptyWorld)))
        ''s1'' ''sessionId'' = None"
  unfolding setup_applicable [OF scenario_guard]
  by (simp add: kvSetForUser_def plainRedirector_def
      promiseAll_def Let_def scenarioOptions_def emptyWorld_def storedField_def sessionRecord_def)

subsection \<open>Applicability and failures\<close>

text \<open>
  Claim C2. \<open>canHandle\<close> never rejects, and it resolves with true exactly when the
  issuer configuration's \<open>grantTypesSupported\<close> is defined and contains
  \<open>authorization_code\<close> and \<open>options.redirectUrl\<close> is defined; otherwise it resolves
  with false.
\<close>

theorem canHandle_applicable:
  "canHandle opts =
     Inr ((\<exists>gs. grantTypesSupported (issuerConfiguration opts) = Some gs
                \<and> ''authorization_code'' \<in> set gs)
          \<and> redirectUrl opts \<noteq> None)"
  by (simp add: canHandle_def parametersGuard_iff)

text \<open>
  The scenario's options are accepted; without a redirect URL, with a grant list that
  omits the authorization code grant, or with no grant list, the answer is false.
\<close>

theorem canHandle_applicable_witness:
  "(canHandle scenarioOptions :: storageError failure + bool) = Inr True
   \<and> (canHandle (scenarioOptions\<lparr>redirectUrl := None\<rparr>) :: storageError failure + bool) = Inr False
   \<and> (canHandle (scenarioOptions\<lparr>issuerConfiguration := \<lparr>grantTypesSupported = Some [''implicit'']\<rparr>\<rparr>)
        :: storageError failure + bool) = Inr False
   \<and> (canHandle (scenarioOptions\<lparr>issuerConfiguration := \<lparr>grantTypesSupported = None\<rparr>\<rparr>)
        :: storageError failure + bool) = Inr False"
  using canHandle_applicable [of scenarioOptions]
    canHandle_applicable [of "scenarioOptions\<lparr>redirectUrl := None\<rparr>"]
    canHandle_applicable [of "scenarioOptions\<lparr>issuerConfiguration := \<lparr>grantTypesSupported = Some [''implicit'']\<rparr>\<rparr>"]
    canHandle_applicable [of "scenarioOptions\<lparr>issuerConfiguration := \<lparr>grantTypesSupported = None\<rparr>\<rparr>"]
  by (simp add: scenarioOptions_def)

text \<open>
  A failure let through comes from one of the three collaborator calls, and only when the
  guard holds.
\<close>

lemma setup_rejected:
  assumes "fst (setupRedirectHandler su rd opts st cv url w) = Inl (Rejected e)"
  shows "parametersGuard opts"
    and "fst (su st (stateRecord opts) (store w)) = Some e
         \<or> fst (su (sessionId opts) (sessionRecord opts cv) (snd (su st (stateRecord opts) (store w)))) = Some e
         \<or> rd url (handleRedirect opts) = Some e"
proof -
  show g: "parametersGuard opts"
    using assms by (cases "parametersGuard opts") (simp_all add: setup_inapplicable)
  show "fst (su st (stateRecord opts) (store w)) = Some e
         \<or> fst (su (sessionId opts) (sessionRecord opts cv) (snd (su st (stateRecord opts) (store w)))) = Some e
         \<or> rd url (handleRedirect opts) = Some e"
    using assms unfolding setup_applicable [OF g]
    by (auto simp: Let_def promiseAll_def split: option.splits)
qed

text \<open>
  Claim C3, as amended. \<open>setupRedirectHandler\<close> fails with an error of its own exactly
  when the applicability predicate is false. That error is raised before the first
  \<^verbatim>\<open>await\<close>, so the world is unchanged: no storage write is issued and the redirector
  is not invoked. Every other failure is a rejection of the storage utility or an
  exception of the redirector, passed on while the predicate holds.
\<close>

theorem setup_unsupported_flow:
  "((\<exists>m. fst (setupRedirectHandler su rd opts st cv url w) = Inl (Error m))
      = (\<not> parametersGuard opts))
   \<and> (\<not> parametersGuard opts \<longrightarrow>
        setupRedirectHandler su rd opts st cv url w =
          (Inl (Error ''The authorization code grant requires a redirectUrl.''), w))
   \<and> (\<forall>e. fst (setupRedirectHandler su rd opts st cv url w) = Inl (Rejected e) \<longrightarrow>
        parametersGuard opts
        \<and> (fst (su st (stateRecord opts) (store w)) = Some e
           \<or> fst (su (sessionId opts) (sessionRecord opts cv)
                   (snd (su st (stateRecord opts) (store w)))) = Some e
           \<or> rd url (handleRedirect opts) = Some e))"
proof (intro conjI allI impI)
  show "(\<exists>m. fst (setupRedirectHandler su rd opts st cv url w) = Inl (Error m))
      = (\<not> parametersGuard opts)"
  proof (cases "parametersGuard opts")
    case True
    then show ?thesis
      unfolding setup_applicable [OF True]
      by (simp add: Let_def split: option.splits)
  next
    case False
    then show ?thesis by (simp add: setup_inapplicable)
  qed
next
  assume "\<not> parametersGuard opts"
  then show "setupRedirectHandler su rd opts st cv url w =
          (Inl (Error ''The authorization code grant requires a redirectUrl.''), w)"
    by (rule setup_inapplicable)
next
  fix e assume "fst (setupRedirectHandler su rd opts st cv url w) = Inl (Rejected e)"
  then show "parametersGuard opts" by (rule setup_rejected(1))
next
  fix e assume "fst (setupRedirectHandler su rd opts st cv url w) = Inl (Rejected e)"
  then show "fst (su st (stateRecord opts) (store w)) = Some e
           \<or> fst (su (sessionId opts) (sessionRecord opts cv)
                   (snd (su st (stateRecord opts) (store w)))) = Some e
           \<or> rd url (handleRedirect opts) = Some e"
    by (rule setup_rejected(2))
qed

text \<open>
  The scenario without a redirect URL: the flow fails with the handler's own error and
  the world is as it was.
\<close>

theorem setup_unsupported_flow_witness:
  "\<not> parametersGuard (scenarioOptions\<lparr>redirectUrl := None\<rparr>)
   \<and> setupRedirectHandler (kvSetForUser Replace []) plainRedirector
        (scenarioOptions\<lparr>redirectUrl := None\<rparr>) ''xyz'' ''verifier123''
        ''https://idp.example/authorize'' emptyWorld
      = (Inl (Error ''The authorization code grant requires a redirectUrl.''), emptyWorld)"
proof -
  have ng: "\<not> parametersGuard (scenarioOptions\<lparr>redirectUrl := None\<rparr>)"
    by (simp add: parametersGuard_def scenarioOptions_def)
  show ?thesis
    using ng setup_unsupported_flow [of "kvSetForUser Replace []" plainRedirector
        "scenarioOptions\<lparr>redirectUrl := None\<rparr>" "''xyz''" "''verifier123''"
        "''https://idp.example/authorize''" emptyWorld]
    by blast
qed

text \<open>
  Claim C3 as stated fails on a storage that rejects the write under the state: the
  options are applicable and the flow still ends with an error.
\<close>

theorem setup_storage_failure_counterexample:
  "parametersGuard scenarioOptions
   \<and> fst (setupRedirectHandler (kvSetForUser Replace [''xyz'']) plainRedirector scenarioOptions
          ''xyz'' ''verifier123'' ''https://idp.example/authorize'' emptyWorld)
      = Inl (Rejected (WriteRejected ''xyz''))"
  using scenario_guard unfolding setup_applicable [OF scenario_guard]
  by (simp add: kvSetForUser_def plainRedirector_def promiseAll_def Let_def)

subsection \<open>The record under the session identifier\<close>

text \<open>
  Claim C4. After a successful call on a storage that keeps what is written, the record
  stored under the session identifier holds the string form of true for \<open>keepAlive\<close>
  when \<open>options.keepAlive\<close> is unspecified, the string form of false when it is false,
  and the string form of true when it is true.
\<close>

theorem setup_keepAlive_default:
  assumes "keepsWrites su look"
    and "fst (setupRedirectHandler su rd opts st cv url w) = Inr ()"
  shows "(keepAlive opts = None \<longrightarrow>
            look (store (snd (setupRedirectHandler su rd opts st cv url w))) (sessionId opts)
              ''keepAlive'' = Some ''true'')
       \<and> (keepAlive opts = Some False \<longrightarrow>
            look (store (snd (setupRedirectHandler su rd opts st cv url w))) (sessionId opts)
              ''keepAlive'' = Some ''false'')
       \<and> (keepAlive opts = Some True \<longrightarrow>
            look (store (snd (setupRedirectHandler su rd opts st cv url w))) (sessionId opts)
              ''keepAlive'' = Some ''true'')"
proof -
  obtain s1 s2 where
    w2: "su (sessionId opts) (sessionRecord opts cv) s1 = (None, s2)" and
    fin: "store (snd (setupRedirectHandler su rd opts st cv url w)) = s2"
    by (rule setup_success_writes [OF assms(2)])
  have stored: "look s2 (sessionId opts) ''keepAlive'' =
      Some (boolToString (booleanWithFallback (keepAlive opts) True))"
    using keepsWrites_written [OF assms(1) w2, of "''keepAlive''"]
    by (simp add: sessionRecord_fields)
  show ?thesis
    unfolding fin stored by (simp add: boolToString_def Boolean_def)
qed

text \<open>
  The scenario leaves \<open>keepAlive\<close> unspecified and the key-value storage holds \<open>true\<close>
  afterwards; with an explicit false it holds \<open>false\<close>.
\<close>

theorem setup_keepAlive_default_witness:
  "fst (setupRedirectHandler (kvSetForUser Replace []) plainRedirector scenarioOptions
          ''xyz'' ''verifier123'' ''https://idp.example/authorize'' emptyWorld) = Inr ()
   \<and> keepAlive scenarioOptions = None
   \<and> storedField (store (snd (setupRedirectHandler (kvSetForUser Replace []) plainRedirector
          scenarioOptions ''xyz'' ''verifier123'' ''https://idp.example/authorize'' emptyWorld)))
        ''s1'' ''keepAlive'' = Some ''true''
   \<and> fst (setupRedirectHandler (kvSetForUser Replace []) plainRedirector
          (scenarioOptions\<lparr>keepAlive := Some False\<rparr>)
          ''xyz'' ''verifier123'' ''https://idp.example/authorize'' emptyWorld) = Inr ()
   \<and> storedField (store (snd (setupRedirectHandler (kvSetForUser Replace []) plainRedirector
          (scenarioOptions\<lparr>keepAlive := Some False\<rparr>)
          ''xyz'' ''verifier123'' ''https://idp.example/authorize'' emptyWorld)))
        ''s1'' ''keepAlive'' = Some ''false''"
proof -
  have ok: "fst (setupRedirectHandler (kvSetForUser Replace []) plainRedirector scenarioOptions
          ''xyz'' ''verifier123'' ''https://idp.example/authorize'' emptyWorld) = Inr ()"
    by (simp add: scenario_run)
  have g': "parametersGuard (scenarioOptions\<lparr>keepAlive := Some False\<rparr>)"
    by (simp add: parametersGuard_def scenarioOptions_def indexOf_def)
  have ok': "fst (setupRedirectHandler (kvSetForUser Replace []) plainRedirector
          (scenarioOptions\<lparr>keepAlive := Some False\<rparr>)
          ''xyz'' ''verifier123'' ''https://idp.example/authorize'' emptyWorld) = Inr ()"
    unfolding setup_applicable [OF g']
    by (simp add: kvSetForUser_def plainRedirector_def promiseAll_def Let_def scenarioOptions_def)
  show ?thesis
    using ok ok' setup_keepAlive_default [OF kv_keepsWrites ok]
      setup_keepAlive_default [OF kv_keepsWrites ok']
    by (simp add: scenarioOptions_def)
qed

lemma sessionRecord_dom:
  assumes "redirectUrl opts \<noteq> None"
  shows "dom (sessionRecord opts cv) =
     {''codeVerifier'', ''issuer'', ''redirectUrl'', ''dpop'', ''keepAlive''}"
proof -
  obtain u where u: "redirectUrl opts = Some u"
    using assms by blast
  show ?thesis
    unfolding sessionRecord_def u by (simp add: insert_commute)
qed

text \<open>
  Claim C5, as amended. After a successful call, the record written under the session
  identifier stores the DPoP preference as a stringified boolean under the field name
  \<open>dpop\<close>. Its fields are \<open>codeVerifier\<close>, \<open>issuer\<close>, \<open>redirectUrl\<close>, \<open>dpop\<close> and
  \<open>keepAlive\<close>; it has no field \<open>dpopBound\<close>.
\<close>

theorem setup_dpop_field:
  assumes "fst (setupRedirectHandler su rd opts st cv url w) = Inr ()"
  shows "calls (snd (setupRedirectHandler su rd opts st cv url w)) =
           calls w @ [SetForUser st (stateRecord opts),
                      SetForUser (sessionId opts) (sessionRecord opts cv),
                      Redirect url (handleRedirect opts)]
       \<and> sessionRecord opts cv ''dpop'' = Some (if dpop opts = Some True then ''true'' else ''false'')
       \<and> sessionRecord opts cv ''dpopBound'' = None
       \<and> dom (sessionRecord opts cv) =
            {''codeVerifier'', ''issuer'', ''redirectUrl'', ''dpop'', ''keepAlive''}"
proof -
  have g: "parametersGuard opts" by (rule setup_success(1) [OF assms])
  then have ru: "redirectUrl opts \<noteq> None" by (simp add: parametersGuard_iff)
  have "calls (snd (setupRedirectHandler su rd opts st cv url w)) =
           calls w @ [SetForUser st (stateRecord opts),
                      SetForUser (sessionId opts) (sessionRecord opts cv),
                      Redirect url (handleRedirect opts)]"
    by (simp add: setup_success(5) [OF assms])
  moreover have "sessionRecord opts cv ''dpop'' = Some (if dpop opts = Some True then ''true'' else ''false'')"
    by (auto simp: sessionRecord_fields boolToString_def Boolean_def split: option.splits)
  moreover have "sessionRecord opts cv ''dpopBound'' = None"
    by (simp add: sessionRecord_fields)
  moreover have "dom (sessionRecord opts cv) =
            {''codeVerifier'', ''issuer'', ''redirectUrl'', ''dpop'', ''keepAlive''}"
    by (rule sessionRecord_dom [OF ru])
  ultimately show ?thesis by (intro conjI)
qed

text \<open>
  The scenario requests DPoP: the second write carries \<open>dpop\<close> with the value
  \<open>true\<close>.
\<close>

theorem setup_dpop_field_witness:
  "fst (setupRedirectHandler (kvSetForUser Replace []) plainRedirector scenarioOptions
          ''xyz'' ''verifier123'' ''https://idp.example/authorize'' emptyWorld) = Inr ()
   \<and> calls (snd (setupRedirectHandler (kvSetForUser Replace []) plainRedirector scenarioOptions
          ''xyz'' ''verifier123'' ''https://idp.example/authorize'' emptyWorld)) =
        [SetForUser ''xyz'' (stateRecord scenarioOptions),
         SetForUser ''s1'' (sessionRecord scenarioOptions ''verifier123''),
         Redirect ''https://idp.example/authorize'' None]
   \<and> sessionRecord scenarioOptions ''verifier123'' ''dpop'' = Some ''true''
   \<and> sessionRecord scenarioOptions ''verifier123'' ''dpopBound'' = None"
proof -
  have ok: "fst (setupRedirectHandler (kvSetForUser Replace []) plainRedirector scenarioOptions
          ''xyz'' ''verifier123'' ''https://idp.example/authorize'' emptyWorld) = Inr ()"
    by (simp add: scenario_run)
  have fields: "sessionId scenarioOptions = ''s1''" "handleRedirect scenarioOptions = None"
    "dpop scenarioOptions = Some True" "calls emptyWorld = []"
    by (simp_all add: scenarioOptions_def emptyWorld_def)
  show ?thesis
    using ok setup_dpop_field [OF ok] by (simp add: fields)
qed

text \<open>
  Claim C5 as stated fails in the scenario: the record stored under the session
  identifier has no field \<open>dpopBound\<close>, the preference is under \<open>dpop\<close>.
\<close>

theorem setup_dpopBound_counterexample:
  "fst (setupRedirectHandler (kvSetForUser Replace []) plainRedirector scenarioOptions
          ''xyz'' ''verifier123'' ''https://idp.example/authorize'' emptyWorld) = Inr ()
   \<and> storedField (store (snd (setupRedirectHandler (kvSetForUser Replace []) plainRedirector
          scenarioOptions ''xyz'' ''verifier123'' ''https://idp.example/authorize'' emptyWorld)))
        ''s1'' ''dpopBound'' = None
   \<and> storedField (store (snd (setupRedirectHandler (kvSetForUser Replace []) plainRedirector
          scenarioOptions ''xyz'' ''verifier123'' ''https://idp.example/authorize'' emptyWorld)))
        ''s1'' ''dpop'' = Some ''true''"
  unfolding setup_applicable [OF scenario_guard]
  by (simp add: kvSetForUser_def plainRedirector_def promiseAll_def Let_def scenarioOptions_def
      emptyWorld_def storedField_def sessionRecord_def boolToString_def Boolean_def)

subsection \<open>The redirect hand-off\<close>

text \<open>
  Claim C6, as amended. With applicable options both storage writes are issued, in the
  order of the array. If one of them rejects, \<open>setupRedirectHandler\<close> rejects with the
  failure of a write that rejected, unmodified, and the redirector is not invoked; the
  redirect hand-off follows the two writes only when both have resolved.
\<close>

theorem setup_redirect_gated:
  assumes "parametersGuard opts"
  shows "(fst (su st (stateRecord opts) (store w)) \<noteq> None
          \<or> fst (su (sessionId opts) (sessionRecord opts cv)
                 (snd (su st (stateRecord opts) (store w)))) \<noteq> None
          \<longrightarrow> (\<exists>e. fst (setupRedirectHandler su rd opts st cv url w) = Inl (Rejected e)
                   \<and> (fst (su st (stateRecord opts) (store w)) = Some e
                      \<or> fst (su (sessionId opts) (sessionRecord opts cv)
                             (snd (su st (stateRecord opts) (store w)))) = Some e))
              \<and> calls (snd (setupRedirectHandler su rd opts st cv url w)) =
                  calls w @ [SetForUser st (stateRecord opts),
                             SetForUser (sessionId opts) (sessionRecord opts cv)]
              \<and> redirects (calls (snd (setupRedirectHandler su rd opts st cv url w))) =
                  redirects (calls w))
       \<and> (fst (su st (stateRecord opts) (store w)) = None
          \<and> fst (su (sessionId opts) (sessionRecord opts cv)
                 (snd (su st (stateRecord opts) (store w)))) = None
          \<longrightarrow> calls (snd (setupRedirectHandler su rd opts st cv url w)) =
                  calls w @ [SetForUser st (stateRecord opts),
                             SetForUser (sessionId opts) (sessionRecord opts cv),
                             Redirect url (handleRedirect opts)])"
  unfolding setup_applicable [OF assms]
  by (auto simp: Let_def promiseAll_def redirects_append split: option.splits)

text \<open>
  A storage that rejects the write under the session identifier: both writes are issued,
  the flow rejects with that failure and no redirect is made.
\<close>

theorem setup_redirect_gated_witness:
  "parametersGuard scenarioOptions
   \<and> fst (kvSetForUser Replace [''s1''] ''s1'' (sessionRecord scenarioOptions ''verifier123'')
          (snd (kvSetForUser Replace [''s1''] ''xyz'' (stateRecord scenarioOptions) (store emptyWorld))))
       = Some (WriteRejected ''s1'')
   \<and> fst (setupRedirectHandler (kvSetForUser Replace [''s1'']) plainRedirector scenarioOptions
          ''xyz'' ''verifier123'' ''https://idp.example/authorize'' emptyWorld)
       = Inl (Rejected (WriteRejected ''s1''))
   \<and> calls (snd (setupRedirectHandler (kvSetForUser Replace [''s1'']) plainRedirector scenarioOptions
          ''xyz'' ''verifier123'' ''https://idp.example/authorize'' emptyWorld)) =
        [SetForUser ''xyz'' (stateRecord scenarioOptions),
         SetForUser ''s1'' (sessionRecord scenarioOptions ''verifier123'')]"
proof -
  have fields: "sessionId scenarioOptions = ''s1''" "calls emptyWorld = []"
    by (simp_all add: scenarioOptions_def emptyWorld_def)
  have rej: "fst (kvSetForUser Replace [''s1''] (sessionId scenarioOptions)
          (sessionRecord scenarioOptions ''verifier123'')
          (snd (kvSetForUser Replace [''s1''] ''xyz'' (stateRecord scenarioOptions) (store emptyWorld))))
       = Some (WriteRejected ''s1'')"
    by (simp add: kvSetForUser_def fields)
  have res: "fst (setupRedirectHandler (kvSetForUser Replace [''s1'']) plainRedirector scenarioOptions
          ''xyz'' ''verifier123'' ''https://idp.example/authorize'' emptyWorld)
       = Inl (Rejected (WriteRejected ''s1''))"
    unfolding setup_applicable [OF scenario_guard]
    by (simp add: kvSetForUser_def plainRedirector_def promiseAll_def Let_def fields)
  show ?thesis
    using scenario_guard rej res
      setup_redirect_gated [OF scenario_guard, of "kvSetForUser Replace [''s1'']" "''xyz''"
        emptyWorld "''verifier123''" plainRedirector "''https://idp.example/authorize''"]
    by (simp add: fields)
qed

text \<open>
  Claim C6 as stated fails on a storage that rejects the write under the session
  identifier: the options are applicable, the flow rejects and the trace holds no
  redirect.
\<close>

theorem setup_write_failure_counterexample:
  "parametersGuard scenarioOptions
   \<and> fst (setupRedirectHandler (kvSetForUser Replace [''s1'']) plainRedirector scenarioOptions
          ''xyz'' ''verifier123'' ''https://idp.example/authorize'' emptyWorld)
       = Inl (Rejected (WriteRejected ''s1''))
   \<and> redirects (calls (snd (setupRedirectHandler (kvSetForUser Replace [''s1'']) plainRedirector
          scenarioOptions ''xyz'' ''verifier123'' ''https://idp.example/authorize'' emptyWorld)))
       = []"
  using scenario_guard unfolding setup_applicable [OF scenario_guard]
  by (simp add: kvSetForUser_def plainRedirector_def promiseAll_def Let_def scenarioOptions_def
      emptyWorld_def)



section \<open>Properties of the session event model\<close>

text \<open>
  The five registration and removal methods declare the same overloads.
\<close>

lemma overloads_same:
  "addListener_overloads = on_overloads" "once_overloads = on_overloads"
  "off_overloads = on_overloads" "removeListener_overloads = on_overloads"
  by (simp_all add: on_overloads_def addListener_overloads_def once_overloads_def
      off_overloads_def removeListener_overloads_def)

text \<open>
  When the members of \<open>EVENTS\<close> have distinct values, a call of \<^verbatim>\<open>on\<close> with the
  name of a channel type-checks exactly when the listener is assignable to the listener
  type of that channel.
\<close>

lemma accepts_on_channel:
  assumes "inj EVENTS"
  shows "accepts EVENTS assignable on_overloads (EVENTS e) l =
           (case listenerOf (case e of LOGIN \<Rightarrow> LOGIN_ARGS | LOGOUT \<Rightarrow> LOGOUT_ARGS
              | SESSION_EXPIRED \<Rightarrow> SESSION_EXPIRED_ARGS | SESSION_RESTORED \<Rightarrow> SESSION_RESTORED_ARGS
              | ERROR \<Rightarrow> ERROR_ARGS | SESSION_EXTENDED \<Rightarrow> SESSION_EXTENDED_ARGS
              | TIMEOUT_SET \<Rightarrow> TIMEOUT_SET_ARGS | NEW_REFRESH_TOKEN \<Rightarrow> NEW_REFRESH_TOKEN_ARGS
              | NEW_TOKENS \<Rightarrow> NEW_TOKENS_ARGS | AUTHORIZATION_REQUEST \<Rightarrow> AUTH_STATE_ARGS) of
              Function ps r \<Rightarrow> assignable l ps r | NeverListener \<Rightarrow> False)"
  using assms
  by (cases e) (simp_all add: accepts_def on_overloads_def overload_def inj_eq)

text \<open>
  Claim C8. For every event name and every listener, and so for each of the ten
  channels, \<^verbatim>\<open>on\<close> and \<^verbatim>\<open>addListener\<close> accept the same pairs, \<^verbatim>\<open>off\<close>
  and \<^verbatim>\<open>removeListener\<close> accept the same pairs, and \<^verbatim>\<open>once\<close> accepts the same
  pairs as \<^verbatim>\<open>on\<close>. The overloads name the ten channels, in the order of the
  interface, and then the fallback.
\<close>

theorem registration_pairs_agree:
  "accepts EVENTS assignable on_overloads n l = accepts EVENTS assignable addListener_overloads n l
   \<and> accepts EVENTS assignable off_overloads n l = accepts EVENTS assignable removeListener_overloads n l
   \<and> accepts EVENTS assignable once_overloads n l = accepts EVENTS assignable on_overloads n l
   \<and> map fst on_overloads = map Literal [LOGIN, LOGOUT, SESSION_EXPIRED, SESSION_RESTORED, ERROR,
        SESSION_EXTENDED, TIMEOUT_SET, NEW_REFRESH_TOKEN, NEW_TOKENS, AUTHORIZATION_REQUEST]
        @ [StringOrSymbol]"
  by (simp add: overloads_same) (simp add: on_overloads_def overload_def)

text \<open>
  For a name that is the value of no member, only the fallback overload admits the name.
\<close>

lemma matching_unlisted:
  assumes "\<forall>e. n \<noteq> EVENTS e"
  shows "matching EVENTS n on_overloads = [overload FALLBACK_ARGS FALLBACK_ARGS]"
  using assms by (simp add: matching_def on_overloads_def overload_def)

text \<open>
  Claim C9, as amended. For an event name outside the ten channels, the only overload of
  \<^verbatim>\<open>on\<close>, \<^verbatim>\<open>addListener\<close> and \<^verbatim>\<open>once\<close> whose event name type admits the name
  is the fallback overload. Its listener type is \<^verbatim>\<open>never\<close>, which admits no value,
  so no call of these three methods that registers a listener under that name
  type-checks. The two registration methods that the interface inherits from
  \<^verbatim>\<open>EventEmitter\<close> without redeclaring them, \<^verbatim>\<open>prependListener\<close> and
  \<^verbatim>\<open>prependOnceListener\<close>, accept every event name, together with every listener that
  is assignable to \<^verbatim>\<open>(...args: any[]) => void\<close>.
\<close>

theorem unlisted_channel_fallback:
  assumes "\<forall>e. n \<noteq> EVENTS e"
  shows "matching EVENTS n on_overloads = [overload FALLBACK_ARGS FALLBACK_ARGS]
       \<and> matching EVENTS n addListener_overloads = [overload FALLBACK_ARGS FALLBACK_ARGS]
       \<and> matching EVENTS n once_overloads = [overload FALLBACK_ARGS FALLBACK_ARGS]
       \<and> snd (overload FALLBACK_ARGS FALLBACK_ARGS) = NeverListener
       \<and> \<not> accepts EVENTS assignable on_overloads n l
       \<and> \<not> accepts EVENTS assignable addListener_overloads n l
       \<and> \<not> accepts EVENTS assignable once_overloads n l
       \<and> accepts EVENTS assignable prependListener_overloads n l
           = assignable l [Rest ''args'' [TAny]] Void
       \<and> accepts EVENTS assignable prependOnceListener_overloads n l
           = assignable l [Rest ''args'' [TAny]] Void"
proof -
  have declared: "\<not> accepts EVENTS assignable on_overloads n l"
    using assms by (simp add: accepts_def on_overloads_def overload_def)
  have inherited:
    "accepts EVENTS assignable prependListener_overloads n l
       = assignable l [Rest ''args'' [TAny]] Void"
    "accepts EVENTS assignable prependOnceListener_overloads n l
       = assignable l [Rest ''args'' [TAny]] Void"
    by (simp_all add: accepts_def prependListener_overloads_def prependOnceListener_overloads_def)
  show ?thesis
    using matching_unlisted [OF assms] declared inherited
    by (simp add: overloads_same overload_def)
qed

text \<open>
  The name \<open>message\<close> is not a channel: registering a listener under it through
  \<^verbatim>\<open>on\<close>, \<^verbatim>\<open>addListener\<close> or \<^verbatim>\<open>once\<close> is refused.
\<close>

theorem unlisted_channel_fallback_witness:
  "matching channelLabel (Str ''message'') on_overloads = [(StringOrSymbol, NeverListener)]
   \<and> \<not> accepts channelLabel arityFits on_overloads (Str ''message'') 0
   \<and> \<not> accepts channelLabel arityFits addListener_overloads (Str ''message'') 0
   \<and> \<not> accepts channelLabel arityFits once_overloads (Str ''message'') 0"
proof -
  have un: "\<forall>e. Str ''message'' \<noteq> channelLabel e"
  proof
    fix e show "Str ''message'' \<noteq> channelLabel e" by (cases e) simp_all
  qed
  show ?thesis
    using unlisted_channel_fallback [OF un, of arityFits 0]
    by (simp add: overload_def)
qed

text \<open>
  Claim C9 as stated fails for the inherited registration methods: the name \<open>message\<close>
  is the label of none of the ten channels, and a call of \<^verbatim>\<open>prependListener\<close> with that
  name and a listener that declares no parameter type-checks.
\<close>

theorem unlisted_channel_prepend_counterexample:
  "Str ''message'' \<notin> set (map channelLabel [LOGIN, LOGOUT, SESSION_EXPIRED, SESSION_RESTORED,
      ERROR, SESSION_EXTENDED, TIMEOUT_SET, NEW_REFRESH_TOKEN, NEW_TOKENS, AUTHORIZATION_REQUEST])
   \<and> accepts channelLabel arityFits prependListener_overloads (Str ''message'') 0
   \<and> accepts channelLabel arityFits prependOnceListener_overloads (Str ''message'') 0"
  by (simp add: accepts_def prependListener_overloads_def prependOnceListener_overloads_def
      arityFits_def)

text \<open>
  A listener with one parameter is accepted on the channel of restored sessions and
  refused on the login channel, by \<^verbatim>\<open>on\<close>, \<^verbatim>\<open>addListener\<close> and \<^verbatim>\<open>once\<close>
  alike.
\<close>

theorem registration_pairs_agree_witness:
  "accepts channelLabel arityFits on_overloads (Str ''SESSION_RESTORED'') 1
   \<and> accepts channelLabel arityFits addListener_overloads (Str ''SESSION_RESTORED'') 1
   \<and> accepts channelLabel arityFits once_overloads (Str ''SESSION_RESTORED'') 1
   \<and> \<not> accepts channelLabel arityFits on_overloads (Str ''LOGIN'') 1
   \<and> \<not> accepts channelLabel arityFits addListener_overloads (Str ''LOGIN'') 1
   \<and> \<not> accepts channelLabel arityFits once_overloads (Str ''LOGIN'') 1"
proof -
  have a: "accepts channelLabel arityFits on_overloads (Str ''SESSION_RESTORED'') 1"
    by (simp add: accepts_def on_overloads_def overload_def arityFits_def)
  have b: "\<not> accepts channelLabel arityFits on_overloads (Str ''LOGIN'') 1"
    by (simp add: accepts_def on_overloads_def overload_def arityFits_def)
  show ?thesis
    using a b registration_pairs_agree [of channelLabel arityFits "Str ''SESSION_RESTORED''" 1]
      registration_pairs_agree [of channelLabel arityFits "Str ''LOGIN''" 1]
    by simp
qed

text \<open>
  Claim C10. Both parameters of \<^verbatim>\<open>emit\<close> are declared \<^verbatim>\<open>never\<close>, so no call of
  \<^verbatim>\<open>emit\<close> type-checks, whatever the event name and the arguments.
\<close>

theorem emit_never_typed:
  "fst emit_parameters = NeverName \<and> snd emit_parameters = NeverRest
   \<and> \<not> emitAccepts EVENTS n vs"
  by (simp add: emitAccepts_def emit_parameters_def)

text \<open>
  Neither a channel name with no argument nor another name with an argument is accepted.
\<close>

theorem emit_never_typed_witness:
  "\<not> emitAccepts channelLabel (Str ''LOGIN'') ([] :: nat list)
   \<and> \<not> emitAccepts channelLabel (Str ''message'') [Suc 0]"
  using emit_never_typed [of channelLabel "Str ''LOGIN''" "[] :: nat list"]
    emit_never_typed [of channelLabel "Str ''message''" "[Suc 0]"]
  by simp

end
